theory Spec2Isabelle
  imports Main
begin

section \<open>Data model\<close>

text \<open>
  The store of \<^verbatim>\<open>mimic/canned_responses/loadbalancer.py\<close> has two dictionaries:
  \<^verbatim>\<open>store.lbs\<close>, from a load balancer id to its record, and \<^verbatim>\<open>store.meta\<close>, from the
  same id to the simulation metadata of that load balancer (itself a dictionary from a
  key such as \<^verbatim>\<open>lb_building\<close> to a number of seconds). A Python \<^verbatim>\<open>KeyError\<close> is the
  value \<open>Inl KeyError\<close>.

  The id is the text that \<^verbatim>\<open>"{0}".format(lb_id)\<close> inserts into a message.
\<close>

type_synonym lb_id = string

datatype error = KeyError

text \<open>
  The textual timestamp kept under \<^verbatim>\<open>lb["updated"]["time"]\<close>. It is written by
  \<^verbatim>\<open>seconds_to_timestamp\<close> and read back inside \<^verbatim>\<open>set_resource_status\<close>.
\<close>

datatype timestamp = Timestamp int

record node =
  node_id :: int
  address :: string
  port :: int
  condition :: string

text \<open>
  The fields of a load balancer record that the lifecycle code reads or writes:
  \<^verbatim>\<open>lb["status"]\<close>, \<^verbatim>\<open>lb["updated"]["time"]\<close> and the optional \<^verbatim>\<open>lb["nodes"]\<close>.
\<close>

record lb =
  status :: string
  updated_time :: timestamp
  nodes :: "node list option"

record store =
  lbs :: "lb_id \<rightharpoonup> lb"
  meta :: "lb_id \<rightharpoonup> (string \<rightharpoonup> int)"

section \<open>Helpers imported from \<^verbatim>\<open>mimic.util.helper\<close>\<close>

text \<open>
  Modelled from the spec: \<^verbatim>\<open>seconds_to_timestamp\<close> and its inverse, which live in
  \<^verbatim>\<open>mimic/util/helper.py\<close>. The spec (section 6) gives the timestamp as an opaque value
  convertible to and from simulated seconds.
\<close>

definition seconds_to_timestamp :: "int \<Rightarrow> timestamp" where
  "seconds_to_timestamp secs = Timestamp secs"

fun timestamp_to_seconds :: "timestamp \<Rightarrow> int" where
  "timestamp_to_seconds (Timestamp secs) = secs"

text \<open>
  Modelled from the spec: \<^verbatim>\<open>set_resource_status\<close> of \<^verbatim>\<open>mimic/util/helper.py\<close>, the
  status clock helper of section 4.1: with \<open>elapsed = current_time - parse(last_updated_time)\<close>,
  it returns the status to report when \<open>elapsed >= dwell_seconds\<close> and nothing otherwise.
  The callers that pass no status get \<^verbatim>\<open>ACTIVE\<close> (section 4.2, rows BUILD and
  PENDING-UPDATE), which is passed here explicitly.
\<close>

definition set_resource_status :: "timestamp \<Rightarrow> int \<Rightarrow> string \<Rightarrow> int \<Rightarrow> string option" where
  "set_resource_status updated time_delta new_status current_timestamp =
     (if time_delta \<le> current_timestamp - timestamp_to_seconds updated
      then Some new_status else None)"

text \<open>
  Modelled from the spec: the response bodies built by \<^verbatim>\<open>EMPTY_RESPONSE\<close>,
  \<^verbatim>\<open>not_found_response\<close> and \<^verbatim>\<open>invalid_resource\<close> of \<^verbatim>\<open>mimic/util/helper.py\<close>, kept
  as tagged values with their arguments (section 6: a structured success body or a
  structured error body). \<open>nodes_body\<close> is the dictionary \<^verbatim>\<open>{"nodes": node_list}\<close>.
\<close>

datatype payload =
    EMPTY_RESPONSE
  | not_found_response string
  | invalid_resource string int
  | nodes_body "node list"

type_synonym response = "payload \<times> int"

section \<open>Python's \<^verbatim>\<open>or\<close>\<close>

text \<open>\<^verbatim>\<open>x or d\<close> on a number: zero is falsy.\<close>

definition or_int :: "int \<Rightarrow> int \<Rightarrow> int" where
  "or_int v d = (if v = 0 then d else v)"

text \<open>\<^verbatim>\<open>x or d\<close> on a status or \<^verbatim>\<open>None\<close>: \<^verbatim>\<open>None\<close> and the empty string are falsy.\<close>

definition or_status :: "string option \<Rightarrow> string \<Rightarrow> string" where
  "or_status r d = (case r of None \<Rightarrow> d | Some st \<Rightarrow> (if st = [] then d else st))"

section \<open>The lifecycle engine\<close>

text \<open>
  \<^verbatim>\<open>_verify_and_update_lb_state(store, lb_id, set_state, current_timestamp)\<close>. The
  Python mutates the store; the model returns the new store, or the \<^verbatim>\<open>KeyError\<close> of
  the first dictionary lookup that fails.
\<close>

definition verify_and_update_lb_state :: "store \<Rightarrow> lb_id \<Rightarrow> bool \<Rightarrow> int \<Rightarrow> error + store" where
  "verify_and_update_lb_state s lb_id set_state current_timestamp =
     (let current_timestring = seconds_to_timestamp current_timestamp in
      case lbs s lb_id of
        None \<Rightarrow> Inl KeyError
      | Some l \<Rightarrow>
          if status l = ''BUILD'' then
            (case meta s lb_id of
               None \<Rightarrow> Inl KeyError
             | Some m \<Rightarrow>
                 (case m ''lb_building'' of
                    None \<Rightarrow> Inl KeyError
                  | Some v \<Rightarrow>
                      let d = or_int v 10;
                          st = or_status (set_resource_status (updated_time l) d ''ACTIVE''
                                 current_timestamp) ''BUILD''
                      in Inr (s\<lparr>lbs := (lbs s)(lb_id \<mapsto> l\<lparr>status := st\<rparr>),
                                meta := (meta s)(lb_id \<mapsto> m(''lb_building'' \<mapsto> d))\<rparr>)))
          else if status l = ''ACTIVE'' \<and> set_state then
            (case meta s lb_id of
               None \<Rightarrow> Inl KeyError
             | Some m \<Rightarrow>
                 let st1 = (if m ''lb_pending_update'' \<noteq> None then ''PENDING-UPDATE''
                            else status l);
                     st2 = (if m ''lb_pending_delete'' \<noteq> None then ''PENDING-DELETE''
                            else st1);
                     st3 = (if m ''lb_error_state'' \<noteq> None then ''ERROR'' else st2)
                 in Inr (s\<lparr>lbs := (lbs s)(lb_id \<mapsto>
                            l\<lparr>status := st3, updated_time := current_timestring\<rparr>)\<rparr>))
          else if status l = ''PENDING-UPDATE'' then
            (case meta s lb_id of
               None \<Rightarrow> Inl KeyError
             | Some m \<Rightarrow>
                 (case m ''lb_pending_update'' of
                    None \<Rightarrow> Inr s
                  | Some v \<Rightarrow>
                      let st = or_status (set_resource_status (updated_time l) v ''ACTIVE''
                                 current_timestamp) ''PENDING-UPDATE''
                      in Inr (s\<lparr>lbs := (lbs s)(lb_id \<mapsto> l\<lparr>status := st\<rparr>)\<rparr>)))
          else if status l = ''PENDING-DELETE'' then
            (case meta s lb_id of
               None \<Rightarrow> Inl KeyError
             | Some m \<Rightarrow>
                 (case m ''lb_pending_delete'' of
                    None \<Rightarrow> Inl KeyError
                  | Some v \<Rightarrow>
                      let d = or_int v 10;
                          st = or_status (set_resource_status (updated_time l) d ''DELETED''
                                 current_timestamp) ''PENDING-DELETE''
                      in Inr (s\<lparr>lbs := (lbs s)(lb_id \<mapsto>
                                  l\<lparr>status := st, updated_time := current_timestring\<rparr>),
                                meta := (meta s)(lb_id \<mapsto> m(''lb_pending_delete'' \<mapsto> d))\<rparr>)))
          else if status l = ''DELETED'' then
            (let st = or_status (set_resource_status (updated_time l) 3600 ''DELETING-NOW''
                        current_timestamp) ''DELETED''
             in if st = ''DELETING-NOW''
                then Inr (s\<lparr>lbs := (lbs s)(lb_id := None)\<rparr>)
                else Inr (s\<lparr>lbs := (lbs s)(lb_id \<mapsto> l\<lparr>status := st\<rparr>)\<rparr>))
          else Inr s)"

section \<open>The request handlers\<close>

text \<open>
  \<^verbatim>\<open>del_load_balancer(store, lb_id, current_timestamp)\<close>. After the first call of the
  engine, \<^verbatim>\<open>any([store.lbs[lb_id]["status"] == ..., ...])\<close> builds its list first, so
  it looks the id up in \<^verbatim>\<open>store.lbs\<close> again, and raises \<^verbatim>\<open>KeyError\<close> when the engine
  has deleted the record. The second call of the engine leaves \<^verbatim>\<open>set_state\<close> at its
  default, \<^verbatim>\<open>True\<close>. When no branch returns, the function falls through to its last
  line, the 404 response.
\<close>

definition del_load_balancer :: "store \<Rightarrow> lb_id \<Rightarrow> int \<Rightarrow> error + (response \<times> store)" where
  "del_load_balancer s lb_id current_timestamp =
     (case lbs s lb_id of
        None \<Rightarrow> Inr ((not_found_response ''loadbalancer'', 404), s)
      | Some l \<Rightarrow>
          if status l = ''PENDING-DELETE'' then
            Inr ((invalid_resource (''Must provide valid load balancers: '' @ lb_id @
                    '' are immutable and could not be processed.'') 400, 400), s)
          else
            (case verify_and_update_lb_state s lb_id True current_timestamp of
               Inl e \<Rightarrow> Inl e
             | Inr s1 \<Rightarrow>
                 (case lbs s1 lb_id of
                    None \<Rightarrow> Inl KeyError
                  | Some l1 \<Rightarrow>
                      if status l1 = ''ACTIVE'' \<or> status l1 = ''ERROR''
                         \<or> status l1 = ''PENDING-UPDATE'' then
                        Inr ((EMPTY_RESPONSE, 202), s1\<lparr>lbs := (lbs s1)(lb_id := None)\<rparr>)
                      else if status l1 = ''PENDING-DELETE'' then
                        Inr ((EMPTY_RESPONSE, 202), s1)
                      else if status l1 = ''DELETED'' then
                        (case verify_and_update_lb_state s1 lb_id True current_timestamp of
                           Inl e \<Rightarrow> Inl e
                         | Inr s2 \<Rightarrow>
                             Inr ((invalid_resource (''Must provide valid load balancers: '' @
                                     lb_id @ '' could not be found.'') 400, 400), s2))
                      else Inr ((not_found_response ''loadbalancer'', 404), s1))))"

text \<open>
  \<^verbatim>\<open>list_nodes(store, lb_id, current_timestamp)\<close>. \<^verbatim>\<open>lb.get("nodes")\<close> is falsy both
  when the key is absent and when the list is empty; the body then holds \<^verbatim>\<open>[]\<close>.
\<close>

definition list_nodes :: "store \<Rightarrow> lb_id \<Rightarrow> int \<Rightarrow> error + (response \<times> store)" where
  "list_nodes s lb_id current_timestamp =
     (case lbs s lb_id of
        None \<Rightarrow> Inr ((not_found_response ''loadbalancer'', 404), s)
      | Some l \<Rightarrow>
          (case verify_and_update_lb_state s lb_id False current_timestamp of
             Inl e \<Rightarrow> Inl e
           | Inr s1 \<Rightarrow>
               (case lbs s1 lb_id of
                  None \<Rightarrow> Inr ((not_found_response ''loadbalancer'', 404), s1)
                | Some l1 \<Rightarrow>
                    if status l1 = ''DELETED'' then
                      Inr ((invalid_resource ''The loadbalancer is marked as deleted.'' 410, 410),
                           s1)
                    else
                      Inr ((nodes_body (case nodes l1 of
                                          None \<Rightarrow> []
                                        | Some ns \<Rightarrow> (if ns = [] then [] else ns)), 200),
                           s1))))"

section \<open>Reading a result\<close>

text \<open>The numeric status code of a handler's result, when the handler returned.\<close>

definition status_code :: "error + (response \<times> store) \<Rightarrow> int option" where
  "status_code r = (case r of Inl e \<Rightarrow> None | Inr ((body, code), s) \<Rightarrow> Some code)"

text \<open>The status of a load balancer in the store the engine returned, when there is one.\<close>

definition status_after :: "error + store \<Rightarrow> lb_id \<Rightarrow> string option" where
  "status_after r i = (case r of Inl e \<Rightarrow> None | Inr s \<Rightarrow> map_option status (lbs s i))"

section \<open>Example stores\<close>

text \<open>
  One load balancer, \<^verbatim>\<open>lb1\<close>, in the given status, last updated at second 0 and
  without nodes, with the given metadata entry.
\<close>

definition one_lb_store :: "string \<Rightarrow> (string \<rightharpoonup> int) \<Rightarrow> store" where
  "one_lb_store st m =
     \<lparr>lbs = [''lb1'' \<mapsto> \<lparr>status = st, updated_time = Timestamp 0, nodes = None\<rparr>],
      meta = [''lb1'' \<mapsto> m]\<rparr>"

definition deleted_store :: store where
  "deleted_store = one_lb_store ''DELETED'' Map.empty"

text \<open>The same store once the record of \<^verbatim>\<open>lb1\<close> is gone: the metadata entry is still there.\<close>

definition purged_store :: store where
  "purged_store = \<lparr>lbs = Map.empty, meta = [''lb1'' \<mapsto> Map.empty]\<rparr>"

definition pending_delete_store :: store where
  "pending_delete_store = one_lb_store ''PENDING-DELETE'' [''lb_pending_delete'' \<mapsto> 10]"

definition active_store :: store where
  "active_store = one_lb_store ''ACTIVE'' Map.empty"

text \<open>An ACTIVE load balancer whose metadata asks for PENDING-DELETE.\<close>

definition active_pending_delete_store :: store where
  "active_pending_delete_store = one_lb_store ''ACTIVE'' [''lb_pending_delete'' \<mapsto> 10]"

text \<open>That store after a delete request at second 5.\<close>

definition pending_after_delete :: store where
  "pending_after_delete =
     \<lparr>lbs = [''lb1'' \<mapsto>
              \<lparr>status = ''PENDING-DELETE'', updated_time = Timestamp 5, nodes = None\<rparr>],
      meta = [''lb1'' \<mapsto> [''lb_pending_delete'' \<mapsto> 10]]\<rparr>"

text \<open>An ACTIVE load balancer with one node.\<close>

definition web_node :: node where
  "web_node = \<lparr>node_id = 42, address = ''10.0.0.1'', port = 80, condition = ''ENABLED''\<rparr>"

definition nodes_store :: store where
  "nodes_store =
     \<lparr>lbs = [''lb1'' \<mapsto>
              \<lparr>status = ''ACTIVE'', updated_time = Timestamp 0, nodes = Some [web_node]\<rparr>],
      meta = [''lb1'' \<mapsto> Map.empty]\<rparr>"

section \<open>Facts about the engine\<close>

lemma same_status: "status l = x \<Longrightarrow> l\<lparr>status := x\<rparr> = l"
  by (cases l) simp

lemma same_lbs: "lbs s i = Some l \<Longrightarrow> s\<lparr>lbs := (lbs s)(i \<mapsto> l)\<rparr> = s"
  by (cases s) (simp add: map_upd_triv)

lemma deleted_purge:
  "lbs s i = Some l \<Longrightarrow> status l = ''DELETED'' \<Longrightarrow>
   3600 \<le> t - timestamp_to_seconds (updated_time l) \<Longrightarrow>
   verify_and_update_lb_state s i trig t = Inr (s\<lparr>lbs := (lbs s)(i := None)\<rparr>)"
  by (simp add: verify_and_update_lb_state_def set_resource_status_def or_status_def)

lemma deleted_keep:
  "lbs s i = Some l \<Longrightarrow> status l = ''DELETED'' \<Longrightarrow>
   t - timestamp_to_seconds (updated_time l) < 3600 \<Longrightarrow>
   verify_and_update_lb_state s i trig t = Inr s"
  by (simp add: verify_and_update_lb_state_def set_resource_status_def or_status_def
      same_status same_lbs)

text \<open>
  With triggers, the three flags of an ACTIVE load balancer are read one after the other;
  what is left is the status of the last flag present.
\<close>

lemma active_triggered:
  "lbs s i = Some l \<Longrightarrow> status l = ''ACTIVE'' \<Longrightarrow> meta s i = Some m \<Longrightarrow>
   verify_and_update_lb_state s i True t =
     Inr (s\<lparr>lbs := (lbs s)(i \<mapsto> l\<lparr>status :=
            (if m ''lb_error_state'' \<noteq> None then ''ERROR''
             else if m ''lb_pending_delete'' \<noteq> None then ''PENDING-DELETE''
             else if m ''lb_pending_update'' \<noteq> None then ''PENDING-UPDATE''
             else ''ACTIVE''),
            updated_time := seconds_to_timestamp t\<rparr>)\<rparr>)"
  by (simp add: verify_and_update_lb_state_def)

text \<open>Without triggers, the engine does not touch an ACTIVE load balancer.\<close>

lemma active_untriggered:
  "lbs s i = Some l \<Longrightarrow> status l = ''ACTIVE'' \<Longrightarrow>
   verify_and_update_lb_state s i False t = Inr s"
  by (simp add: verify_and_update_lb_state_def)

text \<open>A status that no branch of the engine names is left alone, as is the whole store.\<close>

lemma other_status_unchanged:
  "lbs s i = Some l \<Longrightarrow> status l \<noteq> ''BUILD'' \<Longrightarrow> status l \<noteq> ''ACTIVE'' \<Longrightarrow>
   status l \<noteq> ''PENDING-UPDATE'' \<Longrightarrow> status l \<noteq> ''PENDING-DELETE'' \<Longrightarrow>
   status l \<noteq> ''DELETED'' \<Longrightarrow>
   verify_and_update_lb_state s i trig t = Inr s"
  by (simp add: verify_and_update_lb_state_def)

section \<open>Facts about the delete handler\<close>

text \<open>
  Inside the grace period the delete handler does answer 400 "could not be found", and
  the store is as it was.
\<close>

lemma del_deleted_in_grace:
  "lbs s i = Some l \<Longrightarrow> status l = ''DELETED'' \<Longrightarrow>
   t - timestamp_to_seconds (updated_time l) < 3600 \<Longrightarrow>
   del_load_balancer s i t =
     Inr ((invalid_resource (''Must provide valid load balancers: '' @ i @
             '' could not be found.'') 400, 400), s)"
  by (simp add: del_load_balancer_def deleted_keep)

text \<open>
  Once the grace period is over, the first call of the engine deletes the record, and the
  handler's next lookup of \<^verbatim>\<open>store.lbs[lb_id]\<close> raises.
\<close>

lemma del_deleted_expired:
  "lbs s i = Some l \<Longrightarrow> status l = ''DELETED'' \<Longrightarrow>
   3600 \<le> t - timestamp_to_seconds (updated_time l) \<Longrightarrow>
   del_load_balancer s i t = Inl KeyError"
  by (simp add: del_load_balancer_def deleted_purge)

section \<open>The claims\<close>

text \<open>
  C1. The claim: for every id present in the store, \<^verbatim>\<open>del_load_balancer\<close> returns one of
  its documented results and never raises; in particular, for a DELETED load balancer whose
  3600 seconds of grace are over at the call's timestamp, it returns the 400 "could not be
  found" result. The code does not: for \<^verbatim>\<open>lb1\<close> DELETED since second 0, the call at
  second 3600 raises \<^verbatim>\<open>KeyError\<close>, because the engine has deleted the record before the
  handler reads its status again.
\<close>

theorem del_load_balancer_deleted_expired_raises:
  "del_load_balancer deleted_store ''lb1'' 3600 = Inl KeyError"
  by (simp add: del_load_balancer_def verify_and_update_lb_state_def deleted_store_def
      one_lb_store_def set_resource_status_def or_status_def)

text \<open>
  C2. The claim: when the engine runs on a DELETED load balancer at least 3600 seconds after
  its last update, the record and its metadata entry are both removed, so that a metadata
  entry exists only for an id that still has a record. The code removes the record only:
  after the engine has run on \<^verbatim>\<open>lb1\<close>, the store has no record of it and still has its
  metadata entry.
\<close>

theorem purge_keeps_meta_counterexample:
  "verify_and_update_lb_state deleted_store ''lb1'' True 3600 = Inr purged_store
   \<and> lbs purged_store ''lb1'' = None \<and> meta purged_store ''lb1'' = Some Map.empty"
  by (simp add: verify_and_update_lb_state_def deleted_store_def one_lb_store_def
      purged_store_def set_resource_status_def or_status_def)

text \<open>
  C2, as amended: when the engine runs (with or without triggers) on a DELETED load balancer
  at least 3600 seconds after its last update, the record is removed from \<^verbatim>\<open>store.lbs\<close>
  and nothing else changes: \<^verbatim>\<open>store.meta\<close>, with the entry of that id, is as before.
\<close>

theorem purge_removes_record_only:
  assumes "lbs s i = Some l" and "status l = ''DELETED''"
    and "3600 \<le> t - timestamp_to_seconds (updated_time l)"
  shows "verify_and_update_lb_state s i trig t = Inr (s\<lparr>lbs := (lbs s)(i := None)\<rparr>)"
  using assms by (simp add: verify_and_update_lb_state_def set_resource_status_def or_status_def)

theorem purge_removes_record_only_witness:
  "lbs deleted_store ''lb1'' =
     Some \<lparr>status = ''DELETED'', updated_time = Timestamp 0, nodes = None\<rparr>
   \<and> verify_and_update_lb_state deleted_store ''lb1'' False 3600 =
       Inr (deleted_store\<lparr>lbs := (lbs deleted_store)(''lb1'' := None)\<rparr>)
   \<and> meta (deleted_store\<lparr>lbs := (lbs deleted_store)(''lb1'' := None)\<rparr>) ''lb1''
       = Some Map.empty"
  using purge_removes_record_only [of deleted_store "''lb1''"
      "\<lparr>status = ''DELETED'', updated_time = Timestamp 0, nodes = None\<rparr>" 3600 False]
  by (simp add: deleted_store_def one_lb_store_def)

text \<open>
  C3. The claim: \<^verbatim>\<open>del_load_balancer\<close> on a load balancer whose status is PENDING-DELETE
  returns 202 and leaves the record as it is. The code returns 400, not 202: the check of
  the status comes first in the handler, with the comment that the code is 400.
\<close>

theorem del_pending_delete_counterexample:
  "status_code (del_load_balancer pending_delete_store ''lb1'' 5) = Some 400
   \<and> status_code (del_load_balancer pending_delete_store ''lb1'' 5) \<noteq> Some 202"
  by (simp add: del_load_balancer_def pending_delete_store_def one_lb_store_def status_code_def)

text \<open>
  C3, as amended: \<^verbatim>\<open>del_load_balancer\<close> on a load balancer whose status is PENDING-DELETE
  returns the \<^verbatim>\<open>invalid_resource\<close> body "... are immutable and could not be processed."
  with status code 400, and leaves the whole store unchanged: the status remains
  PENDING-DELETE and the record is not removed.
\<close>

theorem del_pending_delete_is_400:
  assumes "lbs s i = Some l" and "status l = ''PENDING-DELETE''"
  shows "del_load_balancer s i t =
     Inr ((invalid_resource (''Must provide valid load balancers: '' @ i @
             '' are immutable and could not be processed.'') 400, 400), s)"
  using assms by (simp add: del_load_balancer_def)

theorem del_pending_delete_is_400_witness:
  "lbs pending_delete_store ''lb1'' =
     Some \<lparr>status = ''PENDING-DELETE'', updated_time = Timestamp 0, nodes = None\<rparr>
   \<and> del_load_balancer pending_delete_store ''lb1'' 5 =
     Inr ((invalid_resource
            ''Must provide valid load balancers: lb1 are immutable and could not be processed.''
            400, 400), pending_delete_store)"
  using del_pending_delete_is_400 [of pending_delete_store "''lb1''"
      "\<lparr>status = ''PENDING-DELETE'', updated_time = Timestamp 0, nodes = None\<rparr>" 5]
  by (simp add: pending_delete_store_def one_lb_store_def)

text \<open>
  C4. The claim: a load balancer DELETED for at least 3600 seconds is purged by the next run
  of the engine, and a later \<^verbatim>\<open>del_load_balancer\<close> on the purged id returns 400 "could not
  be found", not 404. The code returns 404: the id is no longer in \<^verbatim>\<open>store.lbs\<close>, so the
  handler goes straight to its last line.
\<close>

theorem del_after_purge_counterexample:
  "verify_and_update_lb_state deleted_store ''lb1'' False 3600 = Inr purged_store
   \<and> status_code (del_load_balancer purged_store ''lb1'' 3601) = Some 404
   \<and> status_code (del_load_balancer purged_store ''lb1'' 3601) \<noteq> Some 400"
  by (simp add: verify_and_update_lb_state_def deleted_store_def one_lb_store_def
      purged_store_def set_resource_status_def or_status_def del_load_balancer_def
      status_code_def)

text \<open>
  C4, as amended: a load balancer DELETED for at least 3600 seconds has its record removed
  from \<^verbatim>\<open>store.lbs\<close> by the next run of the engine, and a \<^verbatim>\<open>del_load_balancer\<close> call on
  that id made afterwards, at any time, returns the not-found body with status code 404 and
  changes nothing.
\<close>

theorem del_after_purge_is_404:
  assumes "lbs s i = Some l" and "status l = ''DELETED''"
    and "3600 \<le> t - timestamp_to_seconds (updated_time l)"
  shows "verify_and_update_lb_state s i trig t = Inr (s\<lparr>lbs := (lbs s)(i := None)\<rparr>)
     \<and> lbs (s\<lparr>lbs := (lbs s)(i := None)\<rparr>) i = None
     \<and> del_load_balancer (s\<lparr>lbs := (lbs s)(i := None)\<rparr>) i t' =
         Inr ((not_found_response ''loadbalancer'', 404), s\<lparr>lbs := (lbs s)(i := None)\<rparr>)"
  using assms by (simp add: deleted_purge del_load_balancer_def)

theorem del_after_purge_is_404_witness:
  "lbs deleted_store ''lb1'' =
     Some \<lparr>status = ''DELETED'', updated_time = Timestamp 0, nodes = None\<rparr>
   \<and> verify_and_update_lb_state deleted_store ''lb1'' True 4000 = Inr purged_store
   \<and> del_load_balancer purged_store ''lb1'' 4001 =
        Inr ((not_found_response ''loadbalancer'', 404), purged_store)"
  using del_after_purge_is_404 [of deleted_store "''lb1''"
      "\<lparr>status = ''DELETED'', updated_time = Timestamp 0, nodes = None\<rparr>" 4000 True 4001]
  by (simp add: deleted_store_def one_lb_store_def purged_store_def)

text \<open>
  C5. The claim: for every load balancer whose status is ACTIVE, \<^verbatim>\<open>del_load_balancer\<close>
  returns 202 and removes the record within the call, and a second call returns 404. The
  code does not remove an ACTIVE load balancer whose metadata has \<^verbatim>\<open>lb_pending_delete\<close>
  (and no \<^verbatim>\<open>lb_error_state\<close>): the engine moves it to PENDING-DELETE, the handler returns
  202 and keeps the record, and a second call returns 400.
\<close>

theorem del_active_counterexample:
  "del_load_balancer active_pending_delete_store ''lb1'' 5 =
     Inr ((EMPTY_RESPONSE, 202), pending_after_delete)
   \<and> lbs pending_after_delete ''lb1'' \<noteq> None
   \<and> status_code (del_load_balancer pending_after_delete ''lb1'' 6) = Some 400"
  by (simp add: del_load_balancer_def verify_and_update_lb_state_def
      active_pending_delete_store_def one_lb_store_def pending_after_delete_def
      seconds_to_timestamp_def status_code_def)

text \<open>
  C5, as amended: for every load balancer whose status is ACTIVE and whose metadata entry
  exists and either lacks \<^verbatim>\<open>lb_pending_delete\<close> or has \<^verbatim>\<open>lb_error_state\<close>,
  \<^verbatim>\<open>del_load_balancer\<close> returns the empty body with 202 and removes the record from
  \<^verbatim>\<open>store.lbs\<close> within the call (nothing else changes), and a second call on the same id
  returns 404.
\<close>

theorem del_active_removes:
  assumes "lbs s i = Some l" and "status l = ''ACTIVE''" and "meta s i = Some m"
    and "m ''lb_pending_delete'' = None \<or> m ''lb_error_state'' \<noteq> None"
  shows "del_load_balancer s i t = Inr ((EMPTY_RESPONSE, 202), s\<lparr>lbs := (lbs s)(i := None)\<rparr>)
     \<and> lbs (s\<lparr>lbs := (lbs s)(i := None)\<rparr>) i = None
     \<and> del_load_balancer (s\<lparr>lbs := (lbs s)(i := None)\<rparr>) i t' =
         Inr ((not_found_response ''loadbalancer'', 404), s\<lparr>lbs := (lbs s)(i := None)\<rparr>)"
proof -
  let ?s' = "s\<lparr>lbs := (lbs s)(i := None)\<rparr>"
  have first: "del_load_balancer s i t = Inr ((EMPTY_RESPONSE, 202), ?s')"
    using assms by (auto simp add: del_load_balancer_def active_triggered)
  have second: "del_load_balancer ?s' i t' = Inr ((not_found_response ''loadbalancer'', 404), ?s')"
    by (simp add: del_load_balancer_def)
  from first second show ?thesis by simp
qed

theorem del_active_removes_witness:
  "lbs active_store ''lb1'' =
     Some \<lparr>status = ''ACTIVE'', updated_time = Timestamp 0, nodes = None\<rparr>
   \<and> meta active_store ''lb1'' = Some Map.empty
   \<and> del_load_balancer active_store ''lb1'' 5 = Inr ((EMPTY_RESPONSE, 202), purged_store)
   \<and> del_load_balancer purged_store ''lb1'' 6 =
        Inr ((not_found_response ''loadbalancer'', 404), purged_store)"
  using del_active_removes [of active_store "''lb1''"
      "\<lparr>status = ''ACTIVE'', updated_time = Timestamp 0, nodes = None\<rparr>" Map.empty 5 6]
  by (simp add: active_store_def one_lb_store_def purged_store_def)

text \<open>
  C6. When the engine runs with triggers on an ACTIVE load balancer, the flags are read in
  the order \<^verbatim>\<open>lb_pending_update\<close>, \<^verbatim>\<open>lb_pending_delete\<close>, \<^verbatim>\<open>lb_error_state\<close>, each one
  overwriting the status, so the last flag present decides: ERROR when \<^verbatim>\<open>lb_error_state\<close>
  is set, whatever the other two; otherwise PENDING-DELETE when \<^verbatim>\<open>lb_pending_delete\<close> is
  set, also when \<^verbatim>\<open>lb_pending_update\<close> is set with it; otherwise PENDING-UPDATE when
  \<^verbatim>\<open>lb_pending_update\<close> is set; otherwise ACTIVE.
\<close>

theorem active_flag_precedence:
  assumes "lbs s i = Some l" and "status l = ''ACTIVE''" and "meta s i = Some m"
  shows "verify_and_update_lb_state s i True t =
     Inr (s\<lparr>lbs := (lbs s)(i \<mapsto> l\<lparr>status :=
            (if m ''lb_error_state'' \<noteq> None then ''ERROR''
             else if m ''lb_pending_delete'' \<noteq> None then ''PENDING-DELETE''
             else if m ''lb_pending_update'' \<noteq> None then ''PENDING-UPDATE''
             else ''ACTIVE''),
            updated_time := seconds_to_timestamp t\<rparr>)\<rparr>)"
  using assms by (simp add: verify_and_update_lb_state_def)

theorem active_flag_precedence_witness:
  "verify_and_update_lb_state
     (one_lb_store ''ACTIVE'' [''lb_pending_update'' \<mapsto> 3, ''lb_pending_delete'' \<mapsto> 4])
     ''lb1'' True 7 =
   Inr \<lparr>lbs = [''lb1'' \<mapsto>
              \<lparr>status = ''PENDING-DELETE'', updated_time = Timestamp 7, nodes = None\<rparr>],
        meta = [''lb1'' \<mapsto> [''lb_pending_update'' \<mapsto> 3, ''lb_pending_delete'' \<mapsto> 4]]\<rparr>
   \<and> verify_and_update_lb_state
     (one_lb_store ''ACTIVE''
        [''lb_pending_update'' \<mapsto> 3, ''lb_pending_delete'' \<mapsto> 4, ''lb_error_state'' \<mapsto> 1])
     ''lb1'' True 7 =
   Inr \<lparr>lbs = [''lb1'' \<mapsto> \<lparr>status = ''ERROR'', updated_time = Timestamp 7, nodes = None\<rparr>],
        meta = [''lb1'' \<mapsto>
          [''lb_pending_update'' \<mapsto> 3, ''lb_pending_delete'' \<mapsto> 4, ''lb_error_state'' \<mapsto> 1]]\<rparr>"
  using active_flag_precedence
      [of "one_lb_store ''ACTIVE'' [''lb_pending_update'' \<mapsto> 3, ''lb_pending_delete'' \<mapsto> 4]"
        "''lb1''" "\<lparr>status = ''ACTIVE'', updated_time = Timestamp 0, nodes = None\<rparr>"
        "[''lb_pending_update'' \<mapsto> 3, ''lb_pending_delete'' \<mapsto> 4]" 7]
    active_flag_precedence
      [of "one_lb_store ''ACTIVE''
          [''lb_pending_update'' \<mapsto> 3, ''lb_pending_delete'' \<mapsto> 4, ''lb_error_state'' \<mapsto> 1]"
        "''lb1''" "\<lparr>status = ''ACTIVE'', updated_time = Timestamp 0, nodes = None\<rparr>"
        "[''lb_pending_update'' \<mapsto> 3, ''lb_pending_delete'' \<mapsto> 4, ''lb_error_state'' \<mapsto> 1]" 7]
  by (simp add: one_lb_store_def seconds_to_timestamp_def)

text \<open>
  C7. The claim: for every load balancer in BUILD with dwell \<open>d\<close> (\<^verbatim>\<open>lb_building\<close>, 10 when
  unset), the engine leaves BUILD while the elapsed time is below \<open>d\<close> and sets ACTIVE from
  \<open>d\<close> on. When the metadata entry has no \<^verbatim>\<open>lb_building\<close> key at all, the code does
  neither: \<^verbatim>\<open>store.meta[lb_id]["lb_building"]\<close> raises \<^verbatim>\<open>KeyError\<close>.
\<close>

theorem build_without_dwell_counterexample:
  "verify_and_update_lb_state (one_lb_store ''BUILD'' Map.empty) ''lb1'' False 10 = Inl KeyError"
  by (simp add: verify_and_update_lb_state_def one_lb_store_def)

text \<open>
  C7, as amended: for every load balancer in BUILD whose metadata entry has \<^verbatim>\<open>lb_building\<close>
  with value \<open>v\<close>, the dwell is \<open>d = v\<close>, or 10 when \<open>v\<close> is 0 (a falsy value); the engine,
  with or without triggers, leaves the status BUILD when the time elapsed since
  \<^verbatim>\<open>updated_time\<close> is strictly less than \<open>d\<close> and sets it to ACTIVE when it is \<open>d\<close> or
  more, writes \<open>d\<close> back under \<^verbatim>\<open>lb_building\<close>, and changes nothing else.
\<close>

theorem build_dwell_boundary:
  assumes "lbs s i = Some l" and "status l = ''BUILD''" and "meta s i = Some m"
    and "m ''lb_building'' = Some v"
  shows "verify_and_update_lb_state s i trig t =
     Inr (s\<lparr>lbs := (lbs s)(i \<mapsto> l\<lparr>status :=
                 (if t - timestamp_to_seconds (updated_time l) < or_int v 10
                  then ''BUILD'' else ''ACTIVE'')\<rparr>),
            meta := (meta s)(i \<mapsto> m(''lb_building'' \<mapsto> or_int v 10))\<rparr>)"
  using assms
  by (simp add: verify_and_update_lb_state_def set_resource_status_def or_status_def)

theorem build_dwell_boundary_witness:
  "verify_and_update_lb_state (one_lb_store ''BUILD'' [''lb_building'' \<mapsto> 0]) ''lb1'' False 5 =
     Inr (one_lb_store ''BUILD'' [''lb_building'' \<mapsto> 10])
   \<and> verify_and_update_lb_state (one_lb_store ''BUILD'' [''lb_building'' \<mapsto> 0]) ''lb1'' False 10 =
     Inr (one_lb_store ''ACTIVE'' [''lb_building'' \<mapsto> 10])
   \<and> verify_and_update_lb_state (one_lb_store ''BUILD'' [''lb_building'' \<mapsto> 20]) ''lb1'' True 19 =
     Inr (one_lb_store ''BUILD'' [''lb_building'' \<mapsto> 20])
   \<and> verify_and_update_lb_state (one_lb_store ''BUILD'' [''lb_building'' \<mapsto> 20]) ''lb1'' True 20 =
     Inr (one_lb_store ''ACTIVE'' [''lb_building'' \<mapsto> 20])"
  using build_dwell_boundary [of "one_lb_store ''BUILD'' [''lb_building'' \<mapsto> 0]" "''lb1''"
      "\<lparr>status = ''BUILD'', updated_time = Timestamp 0, nodes = None\<rparr>"
      "[''lb_building'' \<mapsto> 0]" 0 False 5]
    build_dwell_boundary [of "one_lb_store ''BUILD'' [''lb_building'' \<mapsto> 0]" "''lb1''"
      "\<lparr>status = ''BUILD'', updated_time = Timestamp 0, nodes = None\<rparr>"
      "[''lb_building'' \<mapsto> 0]" 0 False 10]
    build_dwell_boundary [of "one_lb_store ''BUILD'' [''lb_building'' \<mapsto> 20]" "''lb1''"
      "\<lparr>status = ''BUILD'', updated_time = Timestamp 0, nodes = None\<rparr>"
      "[''lb_building'' \<mapsto> 20]" 20 True 19]
    build_dwell_boundary [of "one_lb_store ''BUILD'' [''lb_building'' \<mapsto> 20]" "''lb1''"
      "\<lparr>status = ''BUILD'', updated_time = Timestamp 0, nodes = None\<rparr>"
      "[''lb_building'' \<mapsto> 20]" 20 True 20]
  by (simp add: one_lb_store_def or_int_def)

text \<open>
  C8. The claim: every run of the engine on an ACTIVE load balancer sets \<^verbatim>\<open>updated_time\<close>
  to the current time, also when no flag fires and also on the read path, so that
  \<^verbatim>\<open>updated_time\<close> drifts forward on mere reads. The code refreshes it only under
  \<^verbatim>\<open>set_state\<close>: a run without triggers at second 50 leaves the store, and the
  \<^verbatim>\<open>updated_time\<close> of second 0, as they were.
\<close>

theorem active_read_counterexample:
  "verify_and_update_lb_state active_store ''lb1'' False 50 = Inr active_store
   \<and> map_option updated_time (lbs active_store ''lb1'') = Some (Timestamp 0)
   \<and> seconds_to_timestamp 50 \<noteq> Timestamp 0"
  by (simp add: verify_and_update_lb_state_def active_store_def one_lb_store_def
      seconds_to_timestamp_def)

text \<open>
  C8, as amended: every run of the engine with triggers on an ACTIVE load balancer that has a
  metadata entry sets \<^verbatim>\<open>updated_time\<close> to the current time, also when no flag is set and
  the status stays ACTIVE (with no metadata entry it raises \<^verbatim>\<open>KeyError\<close>); a run without
  triggers leaves an ACTIVE load balancer and the whole store unchanged, and so does
  \<^verbatim>\<open>list_nodes\<close>, which answers 200: \<^verbatim>\<open>updated_time\<close> does not move on reads.
\<close>

theorem active_refresh_only_with_triggers:
  assumes "lbs s i = Some l" and "status l = ''ACTIVE''"
  shows "verify_and_update_lb_state s i False t = Inr s
     \<and> list_nodes s i t =
         Inr ((nodes_body (case nodes l of None \<Rightarrow> [] | Some ns \<Rightarrow> ns), 200), s)
     \<and> (case meta s i of
           None \<Rightarrow> verify_and_update_lb_state s i True t = Inl KeyError
         | Some m \<Rightarrow>
             (case verify_and_update_lb_state s i True t of
                Inl e \<Rightarrow> False
              | Inr s' \<Rightarrow> map_option updated_time (lbs s' i) = Some (seconds_to_timestamp t)))"
proof -
  have untriggered: "verify_and_update_lb_state s i False t = Inr s"
    using assms by (rule active_untriggered)
  have read: "list_nodes s i t =
      Inr ((nodes_body (case nodes l of None \<Rightarrow> [] | Some ns \<Rightarrow> ns), 200), s)"
    using assms by (simp add: list_nodes_def untriggered split: option.split)
  have triggered: "case meta s i of
        None \<Rightarrow> verify_and_update_lb_state s i True t = Inl KeyError
      | Some m \<Rightarrow>
          (case verify_and_update_lb_state s i True t of
             Inl e \<Rightarrow> False
           | Inr s' \<Rightarrow> map_option updated_time (lbs s' i) = Some (seconds_to_timestamp t))"
    using assms by (simp add: verify_and_update_lb_state_def split: option.split)
  from untriggered read triggered show ?thesis by simp
qed

theorem active_refresh_only_with_triggers_witness:
  "verify_and_update_lb_state active_store ''lb1'' False 50 = Inr active_store
   \<and> list_nodes active_store ''lb1'' 50 = Inr ((nodes_body [], 200), active_store)
   \<and> status_after (verify_and_update_lb_state active_store ''lb1'' True 50) ''lb1''
       = Some ''ACTIVE''
   \<and> (case verify_and_update_lb_state active_store ''lb1'' True 50 of
         Inl e \<Rightarrow> False
       | Inr s' \<Rightarrow> map_option updated_time (lbs s' ''lb1'') = Some (Timestamp 50))"
  using active_refresh_only_with_triggers [of active_store "''lb1''"
      "\<lparr>status = ''ACTIVE'', updated_time = Timestamp 0, nodes = None\<rparr>" 50]
  by (simp add: active_store_def one_lb_store_def verify_and_update_lb_state_def
        seconds_to_timestamp_def status_after_def)

text \<open>
  What \<^verbatim>\<open>list_nodes\<close> does for a present id, read off the run of the engine without
  triggers: the engine's error if it raises, else the answer for the store it left.
\<close>

lemma list_nodes_after_engine:
  "lbs s i \<noteq> None \<Longrightarrow>
   list_nodes s i t =
     (case verify_and_update_lb_state s i False t of
        Inl e \<Rightarrow> Inl e
      | Inr s1 \<Rightarrow>
          Inr ((case lbs s1 i of
                  None \<Rightarrow> (not_found_response ''loadbalancer'', 404)
                | Some l1 \<Rightarrow>
                    if status l1 = ''DELETED''
                    then (invalid_resource ''The loadbalancer is marked as deleted.'' 410, 410)
                    else (nodes_body (case nodes l1 of None \<Rightarrow> [] | Some ns \<Rightarrow> ns), 200)),
               s1))"
  by (auto simp add: list_nodes_def split: option.splits sum.splits)

text \<open>
  The engine returns, with or without triggers, when the metadata that the branch of the
  record's status subscripts is there.
\<close>

lemma engine_returns_untriggered:
  assumes "lbs s i = Some l"
    and "status l = ''BUILD'' \<longrightarrow> (\<exists>m v. meta s i = Some m \<and> m ''lb_building'' = Some v)"
    and "status l = ''PENDING-UPDATE'' \<longrightarrow> meta s i \<noteq> None"
    and "status l = ''PENDING-DELETE'' \<longrightarrow>
           (\<exists>m v. meta s i = Some m \<and> m ''lb_pending_delete'' = Some v)"
  shows "\<exists>s1. verify_and_update_lb_state s i False t = Inr s1"
  using assms
  by (auto simp add: verify_and_update_lb_state_def Let_def split: option.splits)

text \<open>
  C9. The claim: \<^verbatim>\<open>list_nodes\<close> returns 404 for an absent id, and for a present id runs
  the engine without triggers and returns 404, 410 or the nodes with 200. For a present id
  the code can do none of these: a BUILD load balancer whose metadata entry has no
  \<^verbatim>\<open>lb_building\<close> makes the engine, and so \<^verbatim>\<open>list_nodes\<close>, raise \<^verbatim>\<open>KeyError\<close>.
\<close>

theorem list_nodes_raises_counterexample:
  "lbs (one_lb_store ''BUILD'' Map.empty) ''lb1'' \<noteq> None
   \<and> list_nodes (one_lb_store ''BUILD'' Map.empty) ''lb1'' 9 = Inl KeyError
   \<and> status_code (list_nodes (one_lb_store ''BUILD'' Map.empty) ''lb1'' 9) = None"
  by (simp add: list_nodes_def verify_and_update_lb_state_def one_lb_store_def status_code_def)

text \<open>
  C9, as amended: \<^verbatim>\<open>list_nodes\<close> returns 404 when the id is not in the store. When the id
  is present and its record has the metadata that the engine subscripts for its status (a
  metadata entry with \<^verbatim>\<open>lb_building\<close> for BUILD, a metadata entry for PENDING-UPDATE, a
  metadata entry with \<^verbatim>\<open>lb_pending_delete\<close> for PENDING-DELETE, nothing for any other
  status), the run of the engine without triggers returns a store, and \<^verbatim>\<open>list_nodes\<close>
  returns that store with 404 if the record is gone from it, 410 if the status there is
  DELETED, and otherwise the nodes of the record (the empty list when it has none) with 200.
  When the engine raises \<^verbatim>\<open>KeyError\<close>, so does \<^verbatim>\<open>list_nodes\<close>.
\<close>

theorem list_nodes_with_metadata:
  "(lbs s i = None \<longrightarrow>
      list_nodes s i t = Inr ((not_found_response ''loadbalancer'', 404), s))
   \<and> (\<forall>l. lbs s i = Some l
        \<and> (status l = ''BUILD'' \<longrightarrow>
             (\<exists>m v. meta s i = Some m \<and> m ''lb_building'' = Some v))
        \<and> (status l = ''PENDING-UPDATE'' \<longrightarrow> meta s i \<noteq> None)
        \<and> (status l = ''PENDING-DELETE'' \<longrightarrow>
             (\<exists>m v. meta s i = Some m \<and> m ''lb_pending_delete'' = Some v))
        \<longrightarrow>
        (case verify_and_update_lb_state s i False t of
           Inl e \<Rightarrow> False
         | Inr s1 \<Rightarrow>
             list_nodes s i t =
               Inr ((case lbs s1 i of
                       None \<Rightarrow> (not_found_response ''loadbalancer'', 404)
                     | Some l1 \<Rightarrow>
                         if status l1 = ''DELETED''
                         then (invalid_resource ''The loadbalancer is marked as deleted.'' 410,
                               410)
                         else (nodes_body (case nodes l1 of None \<Rightarrow> [] | Some ns \<Rightarrow> ns),
                               200)),
                    s1)))
   \<and> (\<forall>e. lbs s i \<noteq> None \<and> verify_and_update_lb_state s i False t = Inl e \<longrightarrow>
        list_nodes s i t = Inl e)"
proof -
  have absent: "lbs s i = None \<longrightarrow>
      list_nodes s i t = Inr ((not_found_response ''loadbalancer'', 404), s)"
    by (simp add: list_nodes_def)
  have present: "case verify_and_update_lb_state s i False t of
           Inl e \<Rightarrow> False
         | Inr s1 \<Rightarrow>
             list_nodes s i t =
               Inr ((case lbs s1 i of
                       None \<Rightarrow> (not_found_response ''loadbalancer'', 404)
                     | Some l1 \<Rightarrow>
                         if status l1 = ''DELETED''
                         then (invalid_resource ''The loadbalancer is marked as deleted.'' 410,
                               410)
                         else (nodes_body (case nodes l1 of None \<Rightarrow> [] | Some ns \<Rightarrow> ns),
                               200)),
                    s1)"
    if "lbs s i = Some l"
      and "status l = ''BUILD'' \<longrightarrow> (\<exists>m v. meta s i = Some m \<and> m ''lb_building'' = Some v)"
      and "status l = ''PENDING-UPDATE'' \<longrightarrow> meta s i \<noteq> None"
      and "status l = ''PENDING-DELETE'' \<longrightarrow>
             (\<exists>m v. meta s i = Some m \<and> m ''lb_pending_delete'' = Some v)"
    for l
  proof -
    from that obtain s1 where run: "verify_and_update_lb_state s i False t = Inr s1"
      using engine_returns_untriggered by blast
    from that(1) have "lbs s i \<noteq> None" by simp
    then show ?thesis using run by (simp add: list_nodes_after_engine)
  qed
  have raises: "lbs s i \<noteq> None \<and> verify_and_update_lb_state s i False t = Inl e \<longrightarrow>
      list_nodes s i t = Inl e" for e
    by (simp add: list_nodes_after_engine)
  from absent present raises show ?thesis by blast
qed

theorem list_nodes_with_metadata_witness:
  "list_nodes purged_store ''lb1'' 9 =
     Inr ((not_found_response ''loadbalancer'', 404), purged_store)
   \<and> list_nodes deleted_store ''lb1'' 3600 =
     Inr ((not_found_response ''loadbalancer'', 404), purged_store)
   \<and> list_nodes deleted_store ''lb1'' 3599 =
     Inr ((invalid_resource ''The loadbalancer is marked as deleted.'' 410, 410), deleted_store)
   \<and> list_nodes nodes_store ''lb1'' 9 = Inr ((nodes_body [web_node], 200), nodes_store)
   \<and> list_nodes (one_lb_store ''BUILD'' [''lb_building'' \<mapsto> 20]) ''lb1'' 20 =
       Inr ((nodes_body [], 200), one_lb_store ''ACTIVE'' [''lb_building'' \<mapsto> 20])
   \<and> list_nodes (one_lb_store ''BUILD'' Map.empty) ''lb1'' 9 = Inl KeyError"
proof -
  have gone: "verify_and_update_lb_state deleted_store ''lb1'' False 3600 = Inr purged_store"
    by (simp add: verify_and_update_lb_state_def deleted_store_def one_lb_store_def
        purged_store_def set_resource_status_def or_status_def)
  have kept: "verify_and_update_lb_state deleted_store ''lb1'' False 3599 = Inr deleted_store"
    by (simp add: verify_and_update_lb_state_def deleted_store_def one_lb_store_def
        set_resource_status_def or_status_def)
  have with_nodes: "verify_and_update_lb_state nodes_store ''lb1'' False 9 = Inr nodes_store"
    by (simp add: verify_and_update_lb_state_def nodes_store_def)
  have built: "verify_and_update_lb_state (one_lb_store ''BUILD'' [''lb_building'' \<mapsto> 20])
      ''lb1'' False 20 = Inr (one_lb_store ''ACTIVE'' [''lb_building'' \<mapsto> 20])"
    by (simp add: verify_and_update_lb_state_def one_lb_store_def set_resource_status_def
        or_status_def or_int_def)
  have no_key: "verify_and_update_lb_state (one_lb_store ''BUILD'' Map.empty) ''lb1'' False 9
      = Inl KeyError"
    by (simp add: verify_and_update_lb_state_def one_lb_store_def)
  have "list_nodes purged_store ''lb1'' 9 =
      Inr ((not_found_response ''loadbalancer'', 404), purged_store)"
    using list_nodes_with_metadata [of purged_store "''lb1''" 9] by (simp add: purged_store_def)
  moreover have "list_nodes deleted_store ''lb1'' 3600 =
      Inr ((not_found_response ''loadbalancer'', 404), purged_store)"
    using list_nodes_with_metadata [of deleted_store "''lb1''" 3600] gone
    by (simp add: deleted_store_def one_lb_store_def purged_store_def)
  moreover have "list_nodes deleted_store ''lb1'' 3599 =
      Inr ((invalid_resource ''The loadbalancer is marked as deleted.'' 410, 410), deleted_store)"
    using list_nodes_with_metadata [of deleted_store "''lb1''" 3599] kept
    by (simp add: deleted_store_def one_lb_store_def)
  moreover have "list_nodes nodes_store ''lb1'' 9 =
      Inr ((nodes_body [web_node], 200), nodes_store)"
    using list_nodes_with_metadata [of nodes_store "''lb1''" 9] with_nodes
    by (simp add: nodes_store_def)
  moreover have "list_nodes (one_lb_store ''BUILD'' [''lb_building'' \<mapsto> 20]) ''lb1'' 20 =
      Inr ((nodes_body [], 200), one_lb_store ''ACTIVE'' [''lb_building'' \<mapsto> 20])"
    using list_nodes_with_metadata [of "one_lb_store ''BUILD'' [''lb_building'' \<mapsto> 20]" "''lb1''" 20]
      built
    by (simp add: one_lb_store_def)
  moreover have "list_nodes (one_lb_store ''BUILD'' Map.empty) ''lb1'' 9 = Inl KeyError"
    using list_nodes_with_metadata [of "one_lb_store ''BUILD'' Map.empty" "''lb1''" 9] no_key
    by (simp add: one_lb_store_def)
  ultimately show ?thesis by simp
qed

text \<open>
  C10. The \<^verbatim>\<open>set_state\<close> flag of the engine matters for ACTIVE load balancers only: for a
  load balancer in any other status (BUILD, PENDING-UPDATE, PENDING-DELETE, DELETED, ERROR)
  the run with triggers and the run without give the same result, the same store or the same
  error. In particular the run without triggers takes BUILD to ACTIVE and PENDING-UPDATE to
  ACTIVE once the dwell is over, PENDING-DELETE to DELETED once its dwell is over, and
  removes the record of a load balancer DELETED for 3600 seconds.
\<close>

theorem triggers_only_matter_when_active:
  assumes "lbs s i = Some l" and "status l \<noteq> ''ACTIVE''"
  shows "verify_and_update_lb_state s i True t = verify_and_update_lb_state s i False t
     \<and> (status l = ''BUILD'' \<and> meta s i = Some m \<and> m ''lb_building'' = Some v
          \<and> or_int v 10 \<le> t - timestamp_to_seconds (updated_time l) \<longrightarrow>
        status_after (verify_and_update_lb_state s i False t) i = Some ''ACTIVE'')
     \<and> (status l = ''PENDING-UPDATE'' \<and> meta s i = Some m \<and> m ''lb_pending_update'' = Some v
          \<and> v \<le> t - timestamp_to_seconds (updated_time l) \<longrightarrow>
        status_after (verify_and_update_lb_state s i False t) i = Some ''ACTIVE'')
     \<and> (status l = ''PENDING-DELETE'' \<and> meta s i = Some m \<and> m ''lb_pending_delete'' = Some v
          \<and> or_int v 10 \<le> t - timestamp_to_seconds (updated_time l) \<longrightarrow>
        status_after (verify_and_update_lb_state s i False t) i = Some ''DELETED'')
     \<and> (status l = ''DELETED'' \<and> 3600 \<le> t - timestamp_to_seconds (updated_time l) \<longrightarrow>
        verify_and_update_lb_state s i False t = Inr (s\<lparr>lbs := (lbs s)(i := None)\<rparr>))"
proof -
  have same: "verify_and_update_lb_state s i True t = verify_and_update_lb_state s i False t"
    using assms by (simp add: verify_and_update_lb_state_def cong: if_cong)
  have build: "status l = ''BUILD'' \<and> meta s i = Some m \<and> m ''lb_building'' = Some v
      \<and> or_int v 10 \<le> t - timestamp_to_seconds (updated_time l) \<longrightarrow>
      status_after (verify_and_update_lb_state s i False t) i = Some ''ACTIVE''"
    using assms
    by (simp add: verify_and_update_lb_state_def set_resource_status_def or_status_def
        status_after_def)
  have pending_update: "status l = ''PENDING-UPDATE'' \<and> meta s i = Some m
      \<and> m ''lb_pending_update'' = Some v
      \<and> v \<le> t - timestamp_to_seconds (updated_time l) \<longrightarrow>
      status_after (verify_and_update_lb_state s i False t) i = Some ''ACTIVE''"
    using assms
    by (simp add: verify_and_update_lb_state_def set_resource_status_def or_status_def
        status_after_def)
  have pending_delete: "status l = ''PENDING-DELETE'' \<and> meta s i = Some m
      \<and> m ''lb_pending_delete'' = Some v
      \<and> or_int v 10 \<le> t - timestamp_to_seconds (updated_time l) \<longrightarrow>
      status_after (verify_and_update_lb_state s i False t) i = Some ''DELETED''"
    using assms
    by (simp add: verify_and_update_lb_state_def set_resource_status_def or_status_def
        status_after_def)
  have deleted: "status l = ''DELETED'' \<and> 3600 \<le> t - timestamp_to_seconds (updated_time l) \<longrightarrow>
      verify_and_update_lb_state s i False t = Inr (s\<lparr>lbs := (lbs s)(i := None)\<rparr>)"
    using assms by (simp add: deleted_purge)
  from same build pending_update pending_delete deleted show ?thesis by simp
qed

theorem triggers_only_matter_when_active_witness:
  "verify_and_update_lb_state (one_lb_store ''BUILD'' [''lb_building'' \<mapsto> 20]) ''lb1'' True 20
     = verify_and_update_lb_state (one_lb_store ''BUILD'' [''lb_building'' \<mapsto> 20]) ''lb1'' False 20
   \<and> status_after
       (verify_and_update_lb_state (one_lb_store ''BUILD'' [''lb_building'' \<mapsto> 20]) ''lb1'' False 20)
       ''lb1'' = Some ''ACTIVE''
   \<and> status_after
       (verify_and_update_lb_state (one_lb_store ''PENDING-UPDATE'' [''lb_pending_update'' \<mapsto> 30])
          ''lb1'' False 30)
       ''lb1'' = Some ''ACTIVE''
   \<and> status_after (verify_and_update_lb_state pending_delete_store ''lb1'' False 10) ''lb1''
       = Some ''DELETED''
   \<and> verify_and_update_lb_state deleted_store ''lb1'' True 3600
       = verify_and_update_lb_state deleted_store ''lb1'' False 3600
   \<and> verify_and_update_lb_state deleted_store ''lb1'' False 3600 = Inr purged_store
   \<and> verify_and_update_lb_state (one_lb_store ''ERROR'' Map.empty) ''lb1'' True 99
       = verify_and_update_lb_state (one_lb_store ''ERROR'' Map.empty) ''lb1'' False 99"
  using triggers_only_matter_when_active
      [where s = "one_lb_store ''BUILD'' [''lb_building'' \<mapsto> 20]" and i = "''lb1''"
        and l = "\<lparr>status = ''BUILD'', updated_time = Timestamp 0, nodes = None\<rparr>"
        and m = "[''lb_building'' \<mapsto> 20]" and v = 20 and t = 20]
    triggers_only_matter_when_active
      [where s = "one_lb_store ''PENDING-UPDATE'' [''lb_pending_update'' \<mapsto> 30]"
        and i = "''lb1''"
        and l = "\<lparr>status = ''PENDING-UPDATE'', updated_time = Timestamp 0, nodes = None\<rparr>"
        and m = "[''lb_pending_update'' \<mapsto> 30]" and v = 30 and t = 30]
    triggers_only_matter_when_active
      [where s = pending_delete_store and i = "''lb1''"
        and l = "\<lparr>status = ''PENDING-DELETE'', updated_time = Timestamp 0, nodes = None\<rparr>"
        and m = "[''lb_pending_delete'' \<mapsto> 10]" and v = 10 and t = 10]
    triggers_only_matter_when_active
      [where s = deleted_store and i = "''lb1''"
        and l = "\<lparr>status = ''DELETED'', updated_time = Timestamp 0, nodes = None\<rparr>"
        and m = Map.empty and v = 0 and t = 3600]
    triggers_only_matter_when_active
      [where s = "one_lb_store ''ERROR'' Map.empty" and i = "''lb1''"
        and l = "\<lparr>status = ''ERROR'', updated_time = Timestamp 0, nodes = None\<rparr>"
        and m = Map.empty and v = 0 and t = 99]
  by (simp add: one_lb_store_def pending_delete_store_def deleted_store_def purged_store_def
      or_int_def)

end
